theory Spec2Isabelle
  imports Complex_Main "HOL-Library.AList" "HOL-Library.Product_Lexorder" "HOL-Library.Multiset"
begin

section \<open>Data model\<close>

text \<open>
  The two scripts under \<open>src/scripts\<close> work on Python floats, dictionaries and JSON
  documents. Floats are modelled by \<^typ>\<open>real\<close>: the arithmetic is exact, and the IEEE
  infinities and NaN are outside the model. A Python \<open>dict\<close> is an association list
  in insertion order whose keys are distinct; \<open>d[k] = v\<close> is \<^const>\<open>AList.update\<close> (an
  existing key keeps its place, a new key goes to the end), \<open>k in d\<close> and \<open>d[k]\<close>
  are \<^const>\<open>map_of\<close>.
\<close>

datatype py_error = AttributeError | TypeError | ZeroDivisionError

text \<open>What \<open>json.load\<close> returns.\<close>

datatype json =
    JNull
  | JBool bool
  | JNum real
  | JStr string
  | JArr "json list"
  | JObj "(string \<times> json) list"

text \<open>Python's truth value of a loaded document, as \<open>if not current_results\<close> tests it.\<close>

fun truthy :: "json \<Rightarrow> bool" where
  "truthy JNull = False"
| "truthy (JBool b) = b"
| "truthy (JNum x) = (x \<noteq> 0)"
| "truthy (JStr s) = (s \<noteq> [])"
| "truthy (JArr xs) = (xs \<noteq> [])"
| "truthy (JObj kvs) = (kvs \<noteq> [])"

text \<open>
  \<open>current.get("averageTimes", {}).items()\<close>: only a dictionary has \<open>get\<close>, and only a
  dictionary has \<open>items\<close>.
\<close>

definition average_times :: "json \<Rightarrow> py_error + (string \<times> json) list" where
  "average_times current =
     (case current of
        JObj doc \<Rightarrow>
          (case (case map_of doc ''averageTimes'' of None \<Rightarrow> JObj [] | Some v \<Rightarrow> v) of
             JObj current_times \<Rightarrow> Inr current_times
           | _ \<Rightarrow> Inl AttributeError)
      | _ \<Rightarrow> Inl AttributeError)"

text \<open>
  The operand \<open>value\<close> of \<open>value - baseline_time\<close>, where the right operand is a
  float: a JSON number is itself, a boolean is 1 or 0, and nothing else can be subtracted
  from (\<open>TypeError\<close>).
\<close>

fun number_of :: "json \<Rightarrow> real option" where
  "number_of (JNum x) = Some x"
| "number_of (JBool t) = Some (if t then 1 else 0)"
| "number_of _ = None"

definition py_sub :: "json \<Rightarrow> real \<Rightarrow> py_error + real" where
  "py_sub v b = (case number_of v of None \<Rightarrow> Inl TypeError | Some x \<Rightarrow> Inr (x - b))"

text \<open>Float division: a zero divisor raises \<open>ZeroDivisionError\<close>.\<close>

definition py_div :: "real \<Rightarrow> real \<Rightarrow> py_error + real" where
  "py_div a b = (if b = 0 then Inl ZeroDivisionError else Inr (a / b))"

text \<open>\<open>((value - baseline_time) / baseline_time) * 100\<close>, evaluated left to right.\<close>

definition percent_change :: "json \<Rightarrow> real \<Rightarrow> py_error + real" where
  "percent_change current_time baseline_time =
     (case py_sub current_time baseline_time of
        Inl e \<Rightarrow> Inl e
      | Inr d \<Rightarrow>
          (case py_div d baseline_time of
             Inl e \<Rightarrow> Inl e
           | Inr q \<Rightarrow> Inr (q * 100)))"

section \<open>check\_regressions.py\<close>

record regression_info =
  testName :: string
  currentValue :: json
  baselineValue :: real
  percentageChange :: real
  isRegression :: bool
  isImprovement :: bool
  severity :: string

definition categorize_severity :: "real \<Rightarrow> real \<Rightarrow> string" where
  "categorize_severity change_percent threshold =
     (let abs_change = \<bar>change_percent\<bar> in
      if change_percent > 0 then
        (if abs_change > threshold * 3 then ''critical''
         else if abs_change > threshold * 2 then ''major''
         else if abs_change > threshold then ''minor''
         else ''negligible'')
      else
        (if abs_change > threshold * 2 then ''major_improvement''
         else if abs_change > threshold then ''minor_improvement''
         else ''negligible''))"

text \<open>The dictionary literal \<open>regression_info\<close> of \<open>analyze_regressions\<close>.\<close>

definition make_regression_info ::
  "string \<Rightarrow> json \<Rightarrow> real \<Rightarrow> real \<Rightarrow> real \<Rightarrow> regression_info" where
  "make_regression_info metric_name current_time baseline_time change_percent threshold =
     \<lparr> testName = metric_name,
       currentValue = current_time,
       baselineValue = baseline_time,
       percentageChange = change_percent,
       isRegression = (change_percent > threshold),
       isImprovement = (change_percent < - threshold),
       severity = categorize_severity change_percent threshold \<rparr>"

text \<open>
  The \<open>for\<close> loop of \<open>analyze_regressions\<close>; \<open>regs\<close> is the list \<open>regressions\<close>
  built so far. A metric missing from the baseline is passed over; an exception leaves the
  loop and the function.
\<close>

fun analyze_loop ::
  "(string \<times> json) list \<Rightarrow> (string \<times> real) list \<Rightarrow> real \<Rightarrow> regression_info list
     \<Rightarrow> py_error + regression_info list" where
  "analyze_loop [] baseline threshold regs = Inr regs"
| "analyze_loop ((metric_name, current_time) # rest) baseline threshold regs =
     (case map_of baseline metric_name of
        None \<Rightarrow> analyze_loop rest baseline threshold regs
      | Some baseline_time \<Rightarrow>
          (case percent_change current_time baseline_time of
             Inl e \<Rightarrow> Inl e
           | Inr change_percent \<Rightarrow>
               analyze_loop rest baseline threshold
                 (regs @ [make_regression_info metric_name current_time baseline_time
                            change_percent threshold])))"

text \<open>
  \<open>regressions.sort(key=lambda x: (not x["isRegression"], -abs(x["percentageChange"])))\<close>:
  Python's sort is stable and compares the key tuples lexicographically, \<open>False\<close> before
  \<open>True\<close>.
\<close>

definition sort_regressions :: "regression_info list \<Rightarrow> regression_info list" where
  "sort_regressions regs =
     sort_key (\<lambda>x. (\<not> isRegression x, - \<bar>percentageChange x\<bar>)) regs"

definition analyze_regressions ::
  "json \<Rightarrow> (string \<times> real) list \<Rightarrow> real \<Rightarrow> py_error + regression_info list" where
  "analyze_regressions current baseline threshold =
     (case average_times current of
        Inl e \<Rightarrow> Inl e
      | Inr current_times \<Rightarrow>
          (case analyze_loop current_times baseline threshold [] of
             Inl e \<Rightarrow> Inl e
           | Inr regs \<Rightarrow> Inr (sort_regressions regs)))"

text \<open>
  \<open>generate_regression_report\<close>; the timestamp comes from the system clock and is left
  out, and the value returned is the document written to the output path.
\<close>

record report_summary =
  total_metrics :: nat
  regressions :: nat
  improvements :: nat
  critical_regressions :: nat
  major_regressions :: nat

record regression_report =
  summary :: report_summary
  details :: "regression_info list"

definition generate_regression_report :: "regression_info list \<Rightarrow> regression_report" where
  "generate_regression_report regs =
     \<lparr> summary =
         \<lparr> total_metrics = length regs,
           regressions = length (filter isRegression regs),
           improvements = length (filter isImprovement regs),
           critical_regressions = length (filter (\<lambda>r. severity r = ''critical'') regs),
           major_regressions = length (filter (\<lambda>r. severity r = ''major'') regs) \<rparr>,
       details = regs \<rparr>"

text \<open>The literal \<open>empty_report\<close> that \<open>main\<close> writes when there is no baseline.\<close>

definition empty_report :: regression_report where
  "empty_report =
     \<lparr> summary =
         \<lparr> total_metrics = 0, regressions = 0, improvements = 0,
           critical_regressions = 0, major_regressions = 0 \<rparr>,
       details = [] \<rparr>"

text \<open>
  \<open>check_exit_conditions\<close> prints one of four messages and returns the exit code; the
  model returns both. \<open>FAILURE\<close> is the spec's FAIL, \<open>WARNING\<close> its WARN and
  \<open>SUCCESS\<close> its PASS.
\<close>

datatype exit_message =
    FAILURE_critical nat
  | FAILURE_major nat
  | WARNING nat
  | SUCCESS

definition check_exit_conditions :: "regression_info list \<Rightarrow> exit_message \<times> int" where
  "check_exit_conditions regs =
     (let critical_count = length (filter (\<lambda>r. severity r = ''critical'') regs);
          major_count = length (filter (\<lambda>r. severity r = ''major'') regs)
      in if critical_count > 0 then (FAILURE_critical critical_count, 1)
         else if major_count > 3 then (FAILURE_major major_count, 1)
         else if major_count > 0 then (WARNING major_count, 0)
         else (SUCCESS, 0))"

text \<open>
  \<open>load_current_results\<close>: the file is \<open>None\<close> when opening or parsing it raises, and
  the function then returns the empty dictionary.
\<close>

definition load_current_results :: "json option \<Rightarrow> json" where
  "load_current_results file = (case file of None \<Rightarrow> JObj [] | Some doc \<Rightarrow> doc)"

text \<open>
  \<open>load_baseline_results\<close>. The CSV file is the list of its rows, or \<open>None\<close> when it
  cannot be opened. Python's \<open>float\<close> is the parameter \<open>pyfloat\<close>, \<open>None\<close> where it
  raises \<open>ValueError\<close>. The inner \<open>try\<close> catches the \<open>ValueError\<close> and goes on with
  the next row.
\<close>

fun load_baseline_results_rows ::
  "(string \<Rightarrow> real option) \<Rightarrow> string list list \<Rightarrow> (string \<times> real) list
     \<Rightarrow> (string \<times> real) list" where
  "load_baseline_results_rows pyfloat [] baseline = baseline"
| "load_baseline_results_rows pyfloat (row # rest) baseline =
     (if length row \<ge> 2 then
        (case pyfloat (row ! 1) of
           None \<Rightarrow> load_baseline_results_rows pyfloat rest baseline
         | Some v \<Rightarrow>
             load_baseline_results_rows pyfloat rest (AList.update (row ! 0) v baseline))
      else load_baseline_results_rows pyfloat rest baseline)"

definition load_baseline_results ::
  "(string \<Rightarrow> real option) \<Rightarrow> string list list option \<Rightarrow> (string \<times> real) list" where
  "load_baseline_results pyfloat file =
     (case file of
        None \<Rightarrow> []
      | Some rows \<Rightarrow> load_baseline_results_rows pyfloat rows [])"

text \<open>
  \<open>main\<close>. The arguments carry the contents of the two input files. The result is the
  exit code of the process and the report written to the output path, or the exception
  that leaves \<open>main\<close> uncaught. The console output is left out.
\<close>

record args =
  args_current :: "json option"
  args_baseline :: "string list list option"
  args_threshold :: real
  args_fail_on_regression :: bool
  args_verbose :: bool

record run_result =
  exit_code :: int
  report_written :: "regression_report option"

definition main :: "(string \<Rightarrow> real option) \<Rightarrow> args \<Rightarrow> py_error + run_result" where
  "main pyfloat a =
     (let current_results = load_current_results (args_current a) in
      if \<not> truthy current_results then
        Inr \<lparr> exit_code = 1, report_written = None \<rparr>
      else
        let baseline_results = load_baseline_results pyfloat (args_baseline a) in
        if baseline_results = [] then
          Inr \<lparr> exit_code = 0, report_written = Some empty_report \<rparr>
        else
          (case analyze_regressions current_results baseline_results (args_threshold a) of
             Inl e \<Rightarrow> Inl e
           | Inr regs \<Rightarrow>
               let report = generate_regression_report regs in
               if args_fail_on_regression a then
                 Inr \<lparr> exit_code = snd (check_exit_conditions regs),
                       report_written = Some report \<rparr>
               else Inr \<lparr> exit_code = 0, report_written = Some report \<rparr>))"

section \<open>generate\_performance\_dashboard.py\<close>

text \<open>
  \<open>load_baseline_data\<close> has no inner \<open>try\<close>: the \<open>ValueError\<close> of \<open>float\<close> leaves
  the loop, the outer handler prints a warning, and the dictionary built so far is returned.
\<close>

fun load_baseline_data_rows ::
  "(string \<Rightarrow> real option) \<Rightarrow> string list list \<Rightarrow> (string \<times> real) list
     \<Rightarrow> (string \<times> real) list" where
  "load_baseline_data_rows pyfloat [] baseline = baseline"
| "load_baseline_data_rows pyfloat (row # rest) baseline =
     (if length row \<ge> 2 then
        (case pyfloat (row ! 1) of
           None \<Rightarrow> baseline
         | Some v \<Rightarrow>
             load_baseline_data_rows pyfloat rest (AList.update (row ! 0) v baseline))
      else load_baseline_data_rows pyfloat rest baseline)"

definition load_baseline_data ::
  "(string \<Rightarrow> real option) \<Rightarrow> string list list option \<Rightarrow> (string \<times> real) list" where
  "load_baseline_data pyfloat file =
     (case file of
        None \<Rightarrow> []
      | Some rows \<Rightarrow> load_baseline_data_rows pyfloat rows [])"

text \<open>The entries of \<open>changes\<close> in \<open>calculate_performance_changes\<close>.\<close>

record change_info =
  change_current :: json
  change_baseline :: real
  change_percent :: real
  status :: string

definition make_change_info :: "json \<Rightarrow> real \<Rightarrow> real \<Rightarrow> change_info" where
  "make_change_info v baseline_time change =
     \<lparr> change_current = v,
       change_baseline = baseline_time,
       change_percent = change,
       status = (if change > 5 then ''regression''
                 else if change < - 5 then ''improvement''
                 else ''stable'') \<rparr>"

fun calculate_loop ::
  "(string \<times> json) list \<Rightarrow> (string \<times> real) list \<Rightarrow> (string \<times> change_info) list
     \<Rightarrow> py_error + (string \<times> change_info) list" where
  "calculate_loop [] baseline changes = Inr changes"
| "calculate_loop ((metric, v) # rest) baseline changes =
     (case map_of baseline metric of
        None \<Rightarrow> calculate_loop rest baseline changes
      | Some baseline_time \<Rightarrow>
          (case percent_change v baseline_time of
             Inl e \<Rightarrow> Inl e
           | Inr change \<Rightarrow>
               calculate_loop rest baseline
                 (AList.update metric (make_change_info v baseline_time change) changes)))"

definition calculate_performance_changes ::
  "json \<Rightarrow> (string \<times> real) list \<Rightarrow> py_error + (string \<times> change_info) list" where
  "calculate_performance_changes current baseline =
     (case average_times current of
        Inl e \<Rightarrow> Inl e
      | Inr current_times \<Rightarrow> calculate_loop current_times baseline [])"

section \<open>A fragment of Python's float for the examples\<close>

text \<open>
  The loaders take Python's \<open>float\<close> as a parameter, and the general lemmas hold for
  every such function. The examples instantiate it with \<open>decimal_float\<close>, which reads
  the unsigned decimal literals (\<open>12\<close>, \<open>1.5\<close>, \<open>.5\<close>, \<open>2.\<close>) as Python does and
  rejects every other string. Python also accepts signs, exponents, underscores,
  surrounding blanks, \<open>inf\<close> and \<open>nan\<close>; the examples use none of these, and \<open>oops\<close>,
  the one string they use that is rejected, raises \<open>ValueError\<close> in Python too.
\<close>

definition digit_of :: "char \<Rightarrow> nat option" where
  "digit_of c =
     map_of [(CHR ''0'', 0), (CHR ''1'', 1), (CHR ''2'', 2), (CHR ''3'', 3), (CHR ''4'', 4),
             (CHR ''5'', 5), (CHR ''6'', 6), (CHR ''7'', 7), (CHR ''8'', 8), (CHR ''9'', 9)] c"

fun digits_value :: "string \<Rightarrow> nat \<Rightarrow> nat option" where
  "digits_value [] acc = Some acc"
| "digits_value (c # cs) acc =
     (case digit_of c of
        None \<Rightarrow> None
      | Some d \<Rightarrow> digits_value cs (10 * acc + d))"

definition decimal_float :: "string \<Rightarrow> real option" where
  "decimal_float s =
     (let whole = takeWhile (\<lambda>c. c \<noteq> CHR ''.'') s;
          frac = drop 1 (dropWhile (\<lambda>c. c \<noteq> CHR ''.'') s)
      in if whole = [] \<and> frac = [] then None
         else
           (case (digits_value whole 0, digits_value frac 0) of
              (Some i, Some f) \<Rightarrow> Some (real i + real f / 10 ^ length frac)
            | _ \<Rightarrow> None))"

section \<open>Example inputs\<close>

text \<open>
  A current document with a regression, an improvement, an unchanged metric and a metric
  that has no baseline; a baseline with one metric the document lacks.
\<close>

definition example_current :: json where
  "example_current =
     JObj [(''timestamp'', JStr ''2024-01-01''),
           (''averageTimes'',
              JObj [(''a'', JNum 120), (''b'', JNum 80), (''c'', JNum 100), (''d'', JNum 7)])]"

definition example_baseline :: "(string \<times> real) list" where
  "example_baseline = [(''a'', 100), (''b'', 100), (''c'', 100), (''e'', 1)]"

definition example_regressions :: "regression_info list" where
  "example_regressions =
     [\<lparr> testName = ''a'', currentValue = JNum 120, baselineValue = 100,
         percentageChange = 20, isRegression = True, isImprovement = False,
         severity = ''critical'' \<rparr>,
      \<lparr> testName = ''b'', currentValue = JNum 80, baselineValue = 100,
         percentageChange = - 20, isRegression = False, isImprovement = True,
         severity = ''major_improvement'' \<rparr>,
      \<lparr> testName = ''c'', currentValue = JNum 100, baselineValue = 100,
         percentageChange = 0, isRegression = False, isImprovement = False,
         severity = ''negligible'' \<rparr>]"

definition example_improvements :: "regression_info list" where
  "example_improvements =
     [\<lparr> testName = ''b'', currentValue = JNum 80, baselineValue = 100,
         percentageChange = - 20, isRegression = False, isImprovement = True,
         severity = ''major_improvement'' \<rparr>]"


text \<open>The \<open>averageTimes\<close> mapping of \<^const>\<open>example_current\<close>.\<close>

definition example_times :: "(string \<times> json) list" where
  "example_times = [(''a'', JNum 120), (''b'', JNum 80), (''c'', JNum 100), (''d'', JNum 7)]"


text \<open>
  Inputs of \<open>main\<close>: a baseline row that records the metric \<open>a\<close> as zero; a baseline
  file whose second row has a value that is not a number; a current document that has no
  \<open>averageTimes\<close> entry; a run whose current file cannot be loaded; and a run whose
  baseline file cannot be opened.
\<close>

definition example_small_current :: json where
  "example_small_current = JObj [(''averageTimes'', JObj [(''a'', JNum 50)])]"

definition example_zero_args :: args where
  "example_zero_args =
     \<lparr> args_current = Some example_small_current,
       args_baseline = Some [[''a'', ''0'']],
       args_threshold = 5,
       args_fail_on_regression = False,
       args_verbose = False \<rparr>"

definition example_rows :: "string list list" where
  "example_rows = [[''a'', ''1.0''], [''b'', ''oops''], [''c'', ''2.0'']]"



definition example_no_current_args :: args where
  "example_no_current_args =
     \<lparr> args_current = None,
       args_baseline = Some [],
       args_threshold = 5,
       args_fail_on_regression = False,
       args_verbose = False \<rparr>"

definition example_no_baseline_args :: args where
  "example_no_baseline_args =
     \<lparr> args_current = Some example_current,
       args_baseline = None,
       args_threshold = 5,
       args_fail_on_regression = True,
       args_verbose = False \<rparr>"

text \<open>What the dashboard computes for \<^const>\<open>example_current\<close> and \<^const>\<open>example_baseline\<close>.\<close>

definition example_changes :: "(string \<times> change_info) list" where
  "example_changes =
     [(''a'', \<lparr> change_current = JNum 120, change_baseline = 100,
                change_percent = 20, status = ''regression'' \<rparr>),
      (''b'', \<lparr> change_current = JNum 80, change_baseline = 100,
                change_percent = - 20, status = ''improvement'' \<rparr>),
      (''c'', \<lparr> change_current = JNum 100, change_baseline = 100,
                change_percent = 0, status = ''stable'' \<rparr>)]"

section \<open>Properties of the comparator\<close>

lemmas evaluation_defs =
  analyze_regressions_def average_times_def percent_change_def py_sub_def py_div_def
  make_regression_info_def categorize_severity_def sort_regressions_def

lemma example_analysis:
  "analyze_regressions example_current example_baseline 5 = Inr example_regressions"
  by (simp add: example_current_def example_baseline_def example_regressions_def
      evaluation_defs)

text \<open>Every record of the loop's result is in the list it started from or is built by
  \<^const>\<open>make_regression_info\<close> with the threshold of the call.\<close>

lemma analyze_loop_records:
  "analyze_loop kvs b t acc = Inr out \<Longrightarrow> r \<in> set out \<Longrightarrow>
     r \<in> set acc \<or> (\<exists>m v bt c. r = make_regression_info m v bt c t)"
proof (induction kvs arbitrary: acc)
  case Nil
  then show ?case by simp
next
  case (Cons kv kvs)
  obtain m v where kv: "kv = (m, v)" by (cases kv)
  show ?case
  proof (cases "map_of b m")
    case None
    with Cons kv show ?thesis by simp
  next
    case (Some bt)
    show ?thesis
    proof (cases "percent_change v bt")
      case (Inl e)
      with Cons.prems kv Some show ?thesis by simp
    next
      case (Inr c)
      with Cons.prems kv Some
      have "analyze_loop kvs b t (acc @ [make_regression_info m v bt c t]) = Inr out"
        by simp
      from Cons.IH [OF this Cons.prems(2)] show ?thesis by auto
    qed
  qed
qed

lemma analyze_regressions_records:
  assumes "analyze_regressions current b t = Inr out" and "r \<in> set out"
  shows "\<exists>m v bt c. r = make_regression_info m v bt c t"
proof -
  from assms(1) obtain kvs regs where
    loop: "analyze_loop kvs b t [] = Inr regs" and "out = sort_regressions regs"
    by (auto simp: analyze_regressions_def split: sum.splits)
  with assms(2) have "r \<in> set regs" by (simp add: sort_regressions_def)
  with loop analyze_loop_records [of kvs b t "[]" regs r]
  show ?thesis by simp
qed

subsection \<open>Severity classes\<close>



subsection \<open>Flags and severity of a record\<close>




section \<open>The exit policy\<close>

lemma check_exit_conditions_cases:
  "check_exit_conditions regs =
     (if length (filter (\<lambda>r. severity r = ''critical'') regs) > 0
        then (FAILURE_critical (length (filter (\<lambda>r. severity r = ''critical'') regs)), 1)
      else if length (filter (\<lambda>r. severity r = ''major'') regs) > 3
        then (FAILURE_major (length (filter (\<lambda>r. severity r = ''major'') regs)), 1)
      else if length (filter (\<lambda>r. severity r = ''major'') regs) > 0
        then (WARNING (length (filter (\<lambda>r. severity r = ''major'') regs)), 0)
      else (SUCCESS, 0))"
  by (simp add: check_exit_conditions_def Let_def)

lemma improvement_not_failing:
  assumes "0 \<le> t" and "r = make_regression_info m v bt c t" and "isImprovement r"
  shows "severity r \<noteq> ''critical'' \<and> severity r \<noteq> ''major''"
  using assms
  by (auto simp: make_regression_info_def categorize_severity_def Let_def split: if_splits)

lemma filter_none: "(\<forall>x\<in>set xs. \<not> P x) \<Longrightarrow> length (filter P xs) = 0"
  by (induction xs) auto

text \<open>
  Claim C4. With \<open>critical_count\<close> and \<open>major_count\<close> the numbers of records of severity
  critical and major, \<open>check_exit_conditions\<close> returns 1 with a failure message (FAIL)
  iff \<open>critical_count > 0\<close> or \<open>major_count > 3\<close>; it prints the warning and returns 0
  (WARN) iff there is no critical record and \<open>1 \<le> major_count \<le> 3\<close>; it prints success
  and returns 0 (PASS) in the remaining case, no critical and no major record. A list of
  records returned by the analysis under a threshold \<open>t \<ge> 0\<close> in which every record is an
  improvement gets PASS.
\<close>

theorem check_exit_conditions_policy:
  fixes regs :: "regression_info list"
  defines "critical_count \<equiv> length (filter (\<lambda>r. severity r = ''critical'') regs)"
    and "major_count \<equiv> length (filter (\<lambda>r. severity r = ''major'') regs)"
  shows "(snd (check_exit_conditions regs) = 1 \<longleftrightarrow> critical_count > 0 \<or> major_count > 3)
     \<and> (snd (check_exit_conditions regs) = 0 \<longleftrightarrow> critical_count = 0 \<and> major_count \<le> 3)
     \<and> (fst (check_exit_conditions regs)
           \<in> {FAILURE_critical critical_count, FAILURE_major major_count}
          \<longleftrightarrow> critical_count > 0 \<or> major_count > 3)
     \<and> (check_exit_conditions regs = (WARNING major_count, 0)
          \<longleftrightarrow> critical_count = 0 \<and> 1 \<le> major_count \<and> major_count \<le> 3)
     \<and> (check_exit_conditions regs = (SUCCESS, 0) \<longleftrightarrow> critical_count = 0 \<and> major_count = 0)
     \<and> (0 \<le> t \<and> analyze_regressions current baseline t = Inr regs
          \<and> (\<forall>r\<in>set regs. isImprovement r)
          \<longrightarrow> check_exit_conditions regs = (SUCCESS, 0))"
proof -
  have cases: "check_exit_conditions regs =
     (if critical_count > 0 then (FAILURE_critical critical_count, 1)
      else if major_count > 3 then (FAILURE_major major_count, 1)
      else if major_count > 0 then (WARNING major_count, 0)
      else (SUCCESS, 0))"
    unfolding critical_count_def major_count_def by (rule check_exit_conditions_cases)
  have improvements: "critical_count = 0 \<and> major_count = 0"
    if t: "0 \<le> t" and a: "analyze_regressions current baseline t = Inr regs"
      and i: "\<forall>r\<in>set regs. isImprovement r"
  proof -
    have "severity r \<noteq> ''critical'' \<and> severity r \<noteq> ''major''" if "r \<in> set regs" for r
    proof -
      from analyze_regressions_records [OF a that]
      obtain m v bt c where "r = make_regression_info m v bt c t" by blast
      from improvement_not_failing [OF t this] i that show ?thesis by blast
    qed
    then show ?thesis
      unfolding critical_count_def major_count_def by (simp add: filter_none)
  qed
  show ?thesis
    using improvements by (auto simp: cases)
qed

theorem check_exit_conditions_policy_witness:
  "(0::real) \<le> 5
   \<and> analyze_regressions example_current example_baseline 5 = Inr example_regressions
   \<and> check_exit_conditions example_regressions = (FAILURE_critical 1, 1)
   \<and> snd (check_exit_conditions example_regressions) = 1
   \<and> analyze_regressions example_current [(''b'', 100)] 5 = Inr example_improvements
   \<and> isImprovement (example_improvements ! 0)
   \<and> check_exit_conditions example_improvements = (SUCCESS, 0)"
proof -
  have t: "(0::real) \<le> 5" by simp
  have a: "analyze_regressions example_current [(''b'', 100)] 5 = Inr example_improvements"
    by (simp add: example_current_def example_improvements_def evaluation_defs)
  have i: "\<forall>r\<in>set example_improvements. isImprovement r"
    by (simp add: example_improvements_def)
  have c: "length (filter (\<lambda>r. severity r = ''critical'') example_regressions) = 1"
    by (simp add: example_regressions_def)
  from check_exit_conditions_policy [of example_improvements 5 example_current "[(''b'', 100)]"]
    check_exit_conditions_policy [of example_regressions 5 example_current example_baseline]
    t a i c example_analysis
  show ?thesis
    by (simp add: example_improvements_def check_exit_conditions_cases example_regressions_def)
qed

section \<open>Ranking\<close>







section \<open>One record for each common metric\<close>

lemma percent_change_number:
  "number_of v = Some x \<Longrightarrow> bt \<noteq> 0 \<Longrightarrow> percent_change v bt = Inr ((x - bt) / bt * 100)"
  by (simp add: percent_change_def py_sub_def py_div_def)

lemma percent_change_Inr:
  "percent_change v bt = Inr c \<Longrightarrow>
     \<exists>x. number_of v = Some x \<and> bt \<noteq> 0 \<and> c = (x - bt) / bt * 100"
  by (auto simp: percent_change_def py_sub_def py_div_def split: option.splits if_splits)

lemma testName_make [simp]: "testName (make_regression_info m v bt c t) = m"
  by (simp add: make_regression_info_def)

lemma percentageChange_make [simp]: "percentageChange (make_regression_info m v bt c t) = c"
  by (simp add: make_regression_info_def)

lemma analyze_loop_returns:
  assumes "\<forall>kv\<in>set kvs. \<forall>bt. map_of b (fst kv) = Some bt \<longrightarrow> bt \<noteq> 0 \<and> number_of (snd kv) \<noteq> None"
  shows "\<exists>new. analyze_loop kvs b t acc = Inr (acc @ new)
     \<and> map testName new = map fst (filter (\<lambda>kv. map_of b (fst kv) \<noteq> None) kvs)"
  using assms
proof (induction kvs arbitrary: acc)
  case Nil
  then show ?case by simp
next
  case (Cons kv kvs)
  obtain m v where kv: "kv = (m, v)" by (cases kv)
  from Cons.prems have rest:
    "\<forall>kv\<in>set kvs. \<forall>bt. map_of b (fst kv) = Some bt \<longrightarrow> bt \<noteq> 0 \<and> number_of (snd kv) \<noteq> None"
    by simp
  show ?case
  proof (cases "map_of b m")
    case None
    from Cons.IH [OF rest, of acc] obtain new where
      new: "analyze_loop kvs b t acc = Inr (acc @ new)"
        "map testName new = map fst (filter (\<lambda>kv. map_of b (fst kv) \<noteq> None) kvs)"
      by blast
    have "analyze_loop (kv # kvs) b t acc = Inr (acc @ new)"
      using new(1) None kv by simp
    moreover have "map testName new = map fst (filter (\<lambda>kv. map_of b (fst kv) \<noteq> None) (kv # kvs))"
      using new(2) None kv by simp
    ultimately show ?thesis by blast
  next
    case (Some bt)
    from Cons.prems kv Some have "bt \<noteq> 0 \<and> number_of v \<noteq> None" by simp
    then obtain x where x: "number_of v = Some x" and bt: "bt \<noteq> 0" by auto
    define r where "r = make_regression_info m v bt ((x - bt) / bt * 100) t"
    from Cons.IH [OF rest, of "acc @ [r]"] obtain new where
      new: "analyze_loop kvs b t (acc @ [r]) = Inr ((acc @ [r]) @ new)"
        "map testName new = map fst (filter (\<lambda>kv. map_of b (fst kv) \<noteq> None) kvs)"
      by blast
    have "analyze_loop (kv # kvs) b t acc = Inr (acc @ (r # new))"
      using new(1) kv Some by (simp add: percent_change_number [OF x bt] r_def)
    moreover have "map testName (r # new)
        = map fst (filter (\<lambda>kv. map_of b (fst kv) \<noteq> None) (kv # kvs))"
      using new(2) kv Some by (simp add: r_def)
    ultimately show ?thesis by blast
  qed
qed

lemma analyze_loop_form:
  "analyze_loop kvs b t acc = Inr out \<Longrightarrow> r \<in> set out \<Longrightarrow>
     r \<in> set acc \<or> (\<exists>m v bt x. (m, v) \<in> set kvs \<and> map_of b m = Some bt
        \<and> number_of v = Some x \<and> r = make_regression_info m v bt ((x - bt) / bt * 100) t)"
proof (induction kvs arbitrary: acc)
  case Nil
  then show ?case by simp
next
  case (Cons kv kvs)
  obtain m v where kv: "kv = (m, v)" by (cases kv)
  show ?case
  proof (cases "map_of b m")
    case None
    with Cons.prems kv have "analyze_loop kvs b t acc = Inr out" by simp
    from Cons.IH [OF this Cons.prems(2)] show ?thesis by auto
  next
    case (Some bt)
    show ?thesis
    proof (cases "percent_change v bt")
      case (Inl e)
      with Cons.prems kv Some show ?thesis by simp
    next
      case (Inr c)
      from percent_change_Inr [OF Inr] obtain x where
        x: "number_of v = Some x" "c = (x - bt) / bt * 100" by blast
      from Cons.prems kv Some Inr
      have "analyze_loop kvs b t (acc @ [make_regression_info m v bt c t]) = Inr out"
        by simp
      from Cons.IH [OF this Cons.prems(2)]
      consider "r \<in> set acc" | "r = make_regression_info m v bt c t"
        | "\<exists>m v bt x. (m, v) \<in> set kvs \<and> map_of b m = Some bt
        \<and> number_of v = Some x \<and> r = make_regression_info m v bt ((x - bt) / bt * 100) t"
        by auto
      then show ?thesis
      proof cases
        case 1
        then show ?thesis by simp
      next
        case 2
        have "(m, v) \<in> set (kv # kvs)" using kv by simp
        with 2 Some x show ?thesis by blast
      next
        case 3
        then obtain m' v' bt' x' where "(m', v') \<in> set kvs" "map_of b m' = Some bt'"
          "number_of v' = Some x'" "r = make_regression_info m' v' bt' ((x' - bt') / bt' * 100) t"
          by blast
        moreover from this(1) have "(m', v') \<in> set (kv # kvs)" by simp
        ultimately show ?thesis by blast
      qed
    qed
  qed
qed







section \<open>A baseline of zero\<close>

lemmas float_defs = decimal_float_def digit_of_def

lemma percent_change_zero_raises: "\<exists>e. percent_change v 0 = Inl e"
  by (cases "number_of v") (simp_all add: percent_change_def py_sub_def py_div_def)

lemma analyze_loop_zero_baseline:
  "(m, v) \<in> set kvs \<Longrightarrow> map_of b m = Some 0 \<Longrightarrow> \<exists>e. analyze_loop kvs b t acc = Inl e"
proof (induction kvs arbitrary: acc)
  case Nil
  then show ?case by simp
next
  case (Cons kv kvs)
  obtain m' v' where kv: "kv = (m', v')" by (cases kv)
  show ?case
  proof (cases "kv = (m, v)")
    case True
    with percent_change_zero_raises [of v] Cons.prems(2) show ?thesis by auto
  next
    case False
    with Cons.prems have "(m, v) \<in> set kvs" by simp
    from Cons.IH [OF this Cons.prems(2)] have ih: "\<exists>e. analyze_loop kvs b t acc' = Inl e" for acc'
      by blast
    show ?thesis
    proof (cases "map_of b m'")
      case None
      with kv ih [of acc] show ?thesis by simp
    next
      case (Some bt)
      show ?thesis
      proof (cases "percent_change v' bt")
        case (Inl e)
        with kv Some show ?thesis by simp
      next
        case (Inr c)
        with kv Some ih [of "acc @ [make_regression_info m' v' bt c t]"] show ?thesis by simp
      qed
    qed
  qed
qed

lemma calculate_loop_zero_baseline:
  "(m, v) \<in> set kvs \<Longrightarrow> map_of b m = Some 0 \<Longrightarrow> \<exists>e. calculate_loop kvs b acc = Inl e"
proof (induction kvs arbitrary: acc)
  case Nil
  then show ?case by simp
next
  case (Cons kv kvs)
  obtain m' v' where kv: "kv = (m', v')" by (cases kv)
  show ?case
  proof (cases "kv = (m, v)")
    case True
    with percent_change_zero_raises [of v] Cons.prems(2) show ?thesis by auto
  next
    case False
    with Cons.prems have "(m, v) \<in> set kvs" by simp
    from Cons.IH [OF this Cons.prems(2)] have ih: "\<exists>e. calculate_loop kvs b acc' = Inl e" for acc'
      by blast
    show ?thesis
    proof (cases "map_of b m'")
      case None
      with kv ih [of acc] show ?thesis by simp
    next
      case (Some bt)
      show ?thesis
      proof (cases "percent_change v' bt")
        case (Inl e)
        with kv Some show ?thesis by simp
      next
        case (Inr c)
        with kv Some ih [of "AList.update m' (make_change_info v' bt c) acc"]
        show ?thesis by simp
      qed
    qed
  qed
qed

lemma zero_baseline_never_returns:
  assumes "average_times current = Inr current_times"
    and "(m, v) \<in> set current_times" and "map_of baseline m = Some 0"
  shows "\<exists>e. analyze_regressions current baseline t = Inl e"
    and "\<exists>e. calculate_performance_changes current baseline = Inl e"
proof -
  from analyze_loop_zero_baseline [OF assms(2,3), of t "[]"] assms(1)
  show "\<exists>e. analyze_regressions current baseline t = Inl e"
    by (auto simp: analyze_regressions_def)
  from calculate_loop_zero_baseline [OF assms(2,3), of "[]"] assms(1)
  show "\<exists>e. calculate_performance_changes current baseline = Inl e"
    by (auto simp: calculate_performance_changes_def)
qed

text \<open>
  Claim C6. The claim asks that a metric in both sets whose baseline value is 0 gets a
  defined result. The code divides by the baseline without a test: for the current
  document \<open>{"averageTimes": {"a": 50}}\<close> and the baseline row \<open>a,0\<close> the division
  raises \<open>ZeroDivisionError\<close>, which leaves \<open>analyze_regressions\<close>, leaves
  \<open>calculate_performance_changes\<close> and leaves \<open>main\<close> uncaught; no record and no
  report is produced.
\<close>

theorem zero_baseline_raises:
  "load_baseline_results decimal_float (args_baseline example_zero_args) = [(''a'', 0)]
   \<and> analyze_regressions example_small_current [(''a'', 0)] 5 = Inl ZeroDivisionError
   \<and> calculate_performance_changes example_small_current [(''a'', 0)] = Inl ZeroDivisionError
   \<and> main decimal_float example_zero_args = Inl ZeroDivisionError"
proof -
  have l: "load_baseline_results decimal_float (args_baseline example_zero_args) = [(''a'', 0)]"
    by (simp add: example_zero_args_def load_baseline_results_def float_defs)
  have a: "analyze_regressions example_small_current [(''a'', 0)] 5 = Inl ZeroDivisionError"
    by (simp add: example_small_current_def evaluation_defs)
  have c: "calculate_performance_changes example_small_current [(''a'', 0)] = Inl ZeroDivisionError"
    by (simp add: example_small_current_def calculate_performance_changes_def evaluation_defs)
  have t: "truthy (load_current_results (args_current example_zero_args))"
    by (simp add: example_zero_args_def load_current_results_def example_small_current_def)
  have m: "main decimal_float example_zero_args = Inl ZeroDivisionError"
    using l t a by (simp add: main_def Let_def) (simp add: example_zero_args_def load_current_results_def)
  from l a c m show ?thesis by simp
qed

section \<open>Loading the baseline\<close>

lemma load_baseline_results_rows_skips:
  "load_baseline_results_rows pyfloat rows acc
     = load_baseline_results_rows pyfloat
         (filter (\<lambda>row. length row \<ge> 2 \<and> pyfloat (row ! 1) \<noteq> None) rows) acc"
  by (induction rows arbitrary: acc) (auto split: option.splits)

lemma load_baseline_results_rows_keys:
  "fst ` set (load_baseline_results_rows pyfloat rows acc)
     = fst ` set acc
       \<union> {row ! 0 | row. row \<in> set rows \<and> length row \<ge> 2 \<and> pyfloat (row ! 1) \<noteq> None}"
proof (induction rows arbitrary: acc)
  case Nil
  then show ?case by simp
next
  case (Cons row rows)
  show ?case
  proof (cases "length row \<ge> 2 \<and> pyfloat (row ! 1) \<noteq> None")
    case True
    then obtain x where x: "pyfloat (row ! 1) = Some x" by auto
    have "fst ` set (load_baseline_results_rows pyfloat (row # rows) acc)
        = fst ` set (AList.update (row ! 0) x acc)
          \<union> {r ! 0 | r. r \<in> set rows \<and> length r \<ge> 2 \<and> pyfloat (r ! 1) \<noteq> None}"
      using True x Cons.IH [of "AList.update (row ! 0) x acc"] by simp
    also have "fst ` set (AList.update (row ! 0) x acc) = {row ! 0} \<union> fst ` set acc"
      by (rule dom_update)
    finally show ?thesis using True by auto
  next
    case False
    then have "load_baseline_results_rows pyfloat (row # rows) acc
        = load_baseline_results_rows pyfloat rows acc"
      by (auto split: option.splits)
    with Cons.IH [of acc] False show ?thesis by auto
  qed
qed

text \<open>
  Claim C8. The claim asks every loader of the baseline to pass over a row whose value
  does not parse and to load all the other rows. \<open>load_baseline_results\<close> of the checker
  does so (the two lemmas above). \<open>load_baseline_data\<close> of the dashboard stops at the first
  such row: of the rows \<open>a,1.0\<close>, \<open>b,oops\<close>, \<open>c,2.0\<close> it loads \<open>a\<close> only, and the
  well-formed row \<open>c\<close> is lost, while the checker loads \<open>a\<close> and \<open>c\<close>.
\<close>

theorem bad_row_truncates_dashboard_baseline:
  "decimal_float ''oops'' = None
   \<and> decimal_float ''2.0'' = Some 2
   \<and> load_baseline_data decimal_float (Some example_rows) = [(''a'', 1)]
   \<and> load_baseline_results decimal_float (Some example_rows) = [(''a'', 1), (''c'', 2)]"
  by (simp add: example_rows_def load_baseline_data_def load_baseline_results_def float_defs)

section \<open>The run\<close>



text \<open>
  Claim C7, as amended. When the current results load to a document that Python takes as
  true (a non-empty one) and the loaded baseline is empty (the file is missing, empty or
  without a well-formed row), \<open>main\<close> writes the empty report and exits with code 0,
  with or without \<open>--fail-on-regression\<close>. The report has no details and all five counts
  of its summary are zero, and \<open>check_exit_conditions\<close> on its details gives SUCCESS and 0.
\<close>

theorem empty_baseline_run:
  assumes "truthy (load_current_results (args_current a))"
    and "load_baseline_results pyfloat (args_baseline a) = []"
  shows "main pyfloat a = Inr \<lparr> exit_code = 0, report_written = Some empty_report \<rparr>
     \<and> details empty_report = []
     \<and> total_metrics (summary empty_report) = 0
     \<and> regressions (summary empty_report) = 0
     \<and> improvements (summary empty_report) = 0
     \<and> critical_regressions (summary empty_report) = 0
     \<and> major_regressions (summary empty_report) = 0
     \<and> check_exit_conditions (details empty_report) = (SUCCESS, 0)"
  using assms
  by (simp add: main_def Let_def empty_report_def check_exit_conditions_def)

theorem empty_baseline_run_witness:
  "truthy (load_current_results (args_current example_no_baseline_args))
   \<and> load_baseline_results decimal_float (args_baseline example_no_baseline_args) = []
   \<and> main decimal_float example_no_baseline_args
       = Inr \<lparr> exit_code = 0, report_written = Some empty_report \<rparr>"
proof -
  have t: "truthy (load_current_results (args_current example_no_baseline_args))"
    by (simp add: example_no_baseline_args_def load_current_results_def example_current_def)
  have b: "load_baseline_results decimal_float (args_baseline example_no_baseline_args) = []"
    by (simp add: example_no_baseline_args_def load_baseline_results_def)
  from empty_baseline_run [OF t b] t b show ?thesis by simp
qed

text \<open>
  Without the condition on the current results the claim fails: when the current file
  cannot be loaded and the baseline is empty, \<open>main\<close> exits with code 1 before it reads
  the baseline, and writes no report.
\<close>

theorem empty_baseline_run_counterexample:
  "load_baseline_results decimal_float (args_baseline example_no_current_args) = []
   \<and> main decimal_float example_no_current_args
       = Inr \<lparr> exit_code = 1, report_written = None \<rparr>"
  by (simp add: example_no_current_args_def load_baseline_results_def main_def
      load_current_results_def)




section \<open>The dashboard and the checker\<close>

lemma calculate_loop_returns:
  assumes "\<forall>kv\<in>set kvs. \<forall>bt. map_of b (fst kv) = Some bt \<longrightarrow> bt \<noteq> 0 \<and> number_of (snd kv) \<noteq> None"
  shows "\<exists>out. calculate_loop kvs b acc = Inr out"
  using assms
proof (induction kvs arbitrary: acc)
  case Nil
  then show ?case by simp
next
  case (Cons kv kvs)
  obtain m v where kv: "kv = (m, v)" by (cases kv)
  from Cons.prems have rest:
    "\<forall>kv\<in>set kvs. \<forall>bt. map_of b (fst kv) = Some bt \<longrightarrow> bt \<noteq> 0 \<and> number_of (snd kv) \<noteq> None"
    by simp
  show ?case
  proof (cases "map_of b m")
    case None
    with Cons.IH [OF rest, of acc] kv show ?thesis by simp
  next
    case (Some bt)
    from Cons.prems kv Some have "bt \<noteq> 0 \<and> number_of v \<noteq> None" by simp
    then obtain x where x: "number_of v = Some x" and bt: "bt \<noteq> 0" by auto
    from Cons.IH [OF rest, of "AList.update m (make_change_info v bt ((x - bt) / bt * 100)) acc"]
      kv Some
    show ?thesis by (simp add: percent_change_number [OF x bt])
  qed
qed

lemma calculate_loop_keys:
  "calculate_loop kvs b acc = Inr out \<Longrightarrow>
     fst ` set out = fst ` set acc \<union> fst ` set (filter (\<lambda>kv. map_of b (fst kv) \<noteq> None) kvs)"
proof (induction kvs arbitrary: acc)
  case Nil
  then show ?case by simp
next
  case (Cons kv kvs)
  obtain m v where kv: "kv = (m, v)" by (cases kv)
  show ?case
  proof (cases "map_of b m")
    case None
    with Cons.prems kv have "calculate_loop kvs b acc = Inr out" by simp
    from Cons.IH [OF this] None kv show ?thesis by simp
  next
    case (Some bt)
    show ?thesis
    proof (cases "percent_change v bt")
      case (Inl e)
      with Cons.prems kv Some show ?thesis by simp
    next
      case (Inr c)
      with Cons.prems kv Some
      have "calculate_loop kvs b (AList.update m (make_change_info v bt c) acc) = Inr out"
        by simp
      from Cons.IH [OF this]
      have "fst ` set out = fst ` set (AList.update m (make_change_info v bt c) acc)
          \<union> fst ` set (filter (\<lambda>kv. map_of b (fst kv) \<noteq> None) kvs)" .
      also have "fst ` set (AList.update m (make_change_info v bt c) acc) = {m} \<union> fst ` set acc"
        by (rule dom_update)
      finally show ?thesis using kv Some by auto
    qed
  qed
qed

lemma calculate_loop_form:
  "calculate_loop kvs b acc = Inr out \<Longrightarrow> map_of out m = Some c \<Longrightarrow>
     map_of acc m = Some c \<or> (\<exists>v bt x. (m, v) \<in> set kvs \<and> map_of b m = Some bt
        \<and> number_of v = Some x \<and> c = make_change_info v bt ((x - bt) / bt * 100))"
proof (induction kvs arbitrary: acc)
  case Nil
  then show ?case by simp
next
  case (Cons kv kvs)
  obtain m' v' where kv: "kv = (m', v')" by (cases kv)
  show ?case
  proof (cases "map_of b m'")
    case None
    with Cons.prems kv have "calculate_loop kvs b acc = Inr out" by simp
    from Cons.IH [OF this Cons.prems(2)] show ?thesis by auto
  next
    case (Some bt)
    show ?thesis
    proof (cases "percent_change v' bt")
      case (Inl e)
      with Cons.prems kv Some show ?thesis by simp
    next
      case (Inr ch)
      from percent_change_Inr [OF Inr] obtain x where
        x: "number_of v' = Some x" "ch = (x - bt) / bt * 100" by blast
      from Cons.prems kv Some Inr
      have "calculate_loop kvs b (AList.update m' (make_change_info v' bt ch) acc) = Inr out"
        by simp
      from Cons.IH [OF this Cons.prems(2)]
      consider "map_of (AList.update m' (make_change_info v' bt ch) acc) m = Some c"
        | "\<exists>v bt x. (m, v) \<in> set kvs \<and> map_of b m = Some bt
        \<and> number_of v = Some x \<and> c = make_change_info v bt ((x - bt) / bt * 100)"
        by blast
      then show ?thesis
      proof cases
        case 1
        show ?thesis
        proof (cases "m = m'")
          case True
          with 1 have "c = make_change_info v' bt ch" by (simp add: update_conv')
          moreover have "(m, v') \<in> set (kv # kvs)" using kv True by simp
          ultimately show ?thesis using Some x True by blast
        next
          case False
          with 1 have "map_of acc m = Some c" by (simp add: update_conv')
          then show ?thesis by simp
        qed
      next
        case 2
        then obtain v bt' x' where "(m, v) \<in> set kvs" "map_of b m = Some bt'"
          "number_of v = Some x'" "c = make_change_info v bt' ((x' - bt') / bt' * 100)"
          by blast
        moreover from this(1) have "(m, v) \<in> set (kv # kvs)" by simp
        ultimately show ?thesis by blast
      qed
    qed
  qed
qed

lemma status_of_change:
  "change_percent (make_change_info v bt ch) = ch"
  "(status (make_change_info v bt ch) = ''regression'') = (ch > 5)"
  "(status (make_change_info v bt ch) = ''improvement'') = (ch < - 5)"
  "(status (make_change_info v bt ch) = ''stable'') = (\<not> ch > 5 \<and> \<not> ch < - 5)"
  by (auto simp: make_change_info_def)

lemma flags_of_record:
  "isRegression (make_regression_info m v bt ch t) = (ch > t)"
  "isImprovement (make_regression_info m v bt ch t) = (ch < - t)"
  by (simp_all add: make_regression_info_def)

lemma example_dashboard:
  "calculate_performance_changes example_current example_baseline = Inr example_changes"
  by (simp add: example_current_def example_baseline_def example_changes_def
      calculate_performance_changes_def make_change_info_def average_times_def
      percent_change_def py_sub_def py_div_def)

text \<open>
  Claim C10. Take a current document whose \<open>averageTimes\<close> mapping has numbers as
  values, and a baseline in which every metric that is in both sets has a nonzero value.
  Then \<open>calculate_performance_changes\<close> of the dashboard and \<open>analyze_regressions\<close> of
  the checker with threshold 5.0 both return, they cover the same metrics, and for every
  metric the dashboard's entry and the checker's record have the same percentage change;
  the status is \<open>regression\<close> iff \<open>isRegression\<close>, \<open>improvement\<close> iff
  \<open>isImprovement\<close>, and \<open>stable\<close> iff neither.
\<close>

theorem dashboard_agrees_with_checker:
  assumes at: "average_times current = Inr current_times"
    and d: "distinct (map fst current_times)"
    and ok: "\<forall>kv\<in>set current_times. \<forall>b. map_of baseline (fst kv) = Some b \<longrightarrow>
               b \<noteq> 0 \<and> number_of (snd kv) \<noteq> None"
  shows "\<exists>changes regs.
       calculate_performance_changes current baseline = Inr changes
     \<and> analyze_regressions current baseline 5 = Inr regs
     \<and> fst ` set changes = testName ` set regs
     \<and> (\<forall>m c r. map_of changes m = Some c \<and> r \<in> set regs \<and> testName r = m \<longrightarrow>
           change_percent c = percentageChange r
         \<and> (status c = ''regression'') = isRegression r
         \<and> (status c = ''improvement'') = isImprovement r
         \<and> (status c = ''stable'') = (\<not> isRegression r \<and> \<not> isImprovement r))"
proof -
  let ?common = "filter (\<lambda>kv. map_of baseline (fst kv) \<noteq> None) current_times"
  from calculate_loop_returns [OF ok, of "[]"] obtain changes where
    cl: "calculate_loop current_times baseline [] = Inr changes" by blast
  from analyze_loop_returns [OF ok, of 5 "[]"] obtain regs0 where
    al: "analyze_loop current_times baseline 5 [] = Inr regs0"
    and names: "map testName regs0 = map fst ?common"
    by auto
  define regs where "regs = sort_regressions regs0"
  have set_regs: "set regs = set regs0"
    by (simp add: regs_def sort_regressions_def)
  have c: "calculate_performance_changes current baseline = Inr changes"
    by (simp add: calculate_performance_changes_def at cl)
  have a: "analyze_regressions current baseline 5 = Inr regs"
    by (simp add: analyze_regressions_def at al regs_def)
  have "testName ` set regs0 = set (map testName regs0)" by simp
  also have "\<dots> = fst ` set ?common" unfolding names by simp
  finally have keys: "fst ` set changes = testName ` set regs"
    using calculate_loop_keys [OF cl] by (simp add: set_regs)
  have agree: "change_percent c = percentageChange r
         \<and> (status c = ''regression'') = isRegression r
         \<and> (status c = ''improvement'') = isImprovement r
         \<and> (status c = ''stable'') = (\<not> isRegression r \<and> \<not> isImprovement r)"
    if mc: "map_of changes m = Some c" and rin: "r \<in> set regs" and rn: "testName r = m"
    for m c r
  proof -
    from calculate_loop_form [OF cl mc] obtain v bt x where
      f: "(m, v) \<in> set current_times" "map_of baseline m = Some bt" "number_of v = Some x"
         "c = make_change_info v bt ((x - bt) / bt * 100)"
      by auto
    from rin have "r \<in> set regs0" by (simp add: set_regs)
    from analyze_loop_form [OF al this] obtain m' v' bt' x' where
      g: "(m', v') \<in> set current_times" "map_of baseline m' = Some bt'"
         "number_of v' = Some x'"
         "r = make_regression_info m' v' bt' ((x' - bt') / bt' * 100) 5"
      by auto
    from g(4) rn have m': "m' = m" by simp
    from f(1) d have "map_of current_times m = Some v" by simp
    moreover from g(1) d m' have "map_of current_times m = Some v'" by simp
    ultimately have "v' = v" by simp
    with m' f g have r: "r = make_regression_info m v bt ((x - bt) / bt * 100) 5" by simp
    show ?thesis
      unfolding r f(4) by (simp add: status_of_change flags_of_record)
  qed
  from c a keys agree show ?thesis by blast
qed

theorem dashboard_agrees_with_checker_witness:
  "average_times example_current = Inr example_times
   \<and> distinct (map fst example_times)
   \<and> calculate_performance_changes example_current example_baseline = Inr example_changes
   \<and> analyze_regressions example_current example_baseline 5 = Inr example_regressions
   \<and> fst ` set example_changes = testName ` set example_regressions
   \<and> map_of example_changes ''a'' = Some (snd (example_changes ! 0))
   \<and> testName (example_regressions ! 0) = ''a''
   \<and> status (snd (example_changes ! 0)) = ''regression''
   \<and> isRegression (example_regressions ! 0)
   \<and> change_percent (snd (example_changes ! 0)) = percentageChange (example_regressions ! 0)"
proof -
  have at: "average_times example_current = Inr example_times"
    by (simp add: average_times_def example_current_def example_times_def)
  have d: "distinct (map fst example_times)"
    by (simp add: example_times_def)
  have ok: "\<forall>kv\<in>set example_times. \<forall>b. map_of example_baseline (fst kv) = Some b \<longrightarrow>
               b \<noteq> 0 \<and> number_of (snd kv) \<noteq> None"
    by (simp add: example_times_def example_baseline_def)
  from dashboard_agrees_with_checker [OF at d ok] obtain changes regs where
    c: "calculate_performance_changes example_current example_baseline = Inr changes"
    and a: "analyze_regressions example_current example_baseline 5 = Inr regs"
    and keys: "fst ` set changes = testName ` set regs"
    and agree: "\<forall>m c r. map_of changes m = Some c \<and> r \<in> set regs \<and> testName r = m \<longrightarrow>
           change_percent c = percentageChange r
         \<and> (status c = ''regression'') = isRegression r
         \<and> (status c = ''improvement'') = isImprovement r
         \<and> (status c = ''stable'') = (\<not> isRegression r \<and> \<not> isImprovement r)"
    by blast
  from c example_dashboard have ce: "changes = example_changes" by simp
  from a example_analysis have re: "regs = example_regressions" by simp
  have look: "map_of example_changes ''a'' = Some (snd (example_changes ! 0))"
    by (simp add: example_changes_def)
  have mem: "example_regressions ! 0 \<in> set example_regressions"
    by (simp add: example_regressions_def)
  have name: "testName (example_regressions ! 0) = ''a''"
    by (simp add: example_regressions_def)
  from agree [rule_format, of "''a''" "snd (example_changes ! 0)" "example_regressions ! 0"]
    look mem name ce re
  have same: "change_percent (snd (example_changes ! 0)) = percentageChange (example_regressions ! 0)"
    and reg: "(status (snd (example_changes ! 0)) = ''regression'') = isRegression (example_regressions ! 0)"
    by simp_all
  have st: "status (snd (example_changes ! 0)) = ''regression''"
    by (simp add: example_changes_def)
  from keys ce re have k: "fst ` set example_changes = testName ` set example_regressions"
    by simp
  from at d example_dashboard example_analysis k look name st same reg
  show ?thesis by simp
qed

end
